theory Spec2Isabelle
  imports Main
begin

section \<open>Text\<close>

text \<open>
  The script \<^verbatim>\<open>update-schedule-page.py\<close> reads the page
  \<^verbatim>\<open>src/app/admin/schedule/page.tsx\<close>, rewrites it with seven calls of
  \<^verbatim>\<open>str.replace\<close> and writes it back. A Python \<^verbatim>\<open>str\<close> is a sequence of
  Unicode code points, so a buffer is a list of code points, each a natural number.
  The functions on text are polymorphic in the type of the elements, as the algorithm of
  \<^verbatim>\<open>str.replace\<close> only compares them.
\<close>

type_synonym codepoint = nat
type_synonym buffer = "codepoint list"

definition codepoints :: "string \<Rightarrow> buffer" where
  "codepoints s = map of_char s"

text \<open>
  The literals of the script are triple-quoted blocks. A block is written here as the list
  of its lines, joined by line feeds; its last line has no line feed after it.
\<close>

fun joinlines :: "string list \<Rightarrow> string" where
  "joinlines [] = []"
| "joinlines [l] = l"
| "joinlines (l # ls) = l @ CHR 0x0A # joinlines ls"

definition block :: "string list \<Rightarrow> buffer" where
  "block ls = codepoints (joinlines ls)"

section \<open>Substitution\<close>

text \<open>
  \<^verbatim>\<open>s.startswith(old)\<close> compares the text with \<open>old\<close> element by element.
  \<^verbatim>\<open>s.replace(old, new)\<close> with no count scans the text from the left: where
  \<open>old\<close> starts, \<open>new\<close> is emitted and the scan resumes after the occurrence, otherwise
  one element is copied. With an empty \<open>old\<close>, Python puts \<open>new\<close> before every element
  and at the end.
\<close>

fun starts_with :: "'a list \<Rightarrow> 'a list \<Rightarrow> bool" where
  "starts_with s [] = True"
| "starts_with [] (x # xs) = False"
| "starts_with (c # cs) (x # xs) = (if c = x then starts_with cs xs else False)"

function replace_from :: "'a list \<Rightarrow> 'a list \<Rightarrow> 'a list \<Rightarrow> 'a list" where
  "replace_from old new [] = []"
| "replace_from old new (c # cs) =
     (if old \<noteq> [] \<and> starts_with (c # cs) old
      then new @ replace_from old new (drop (length old) (c # cs))
      else c # replace_from old new cs)"
  by pat_completeness auto
termination
  by (relation "measure (\<lambda>(old, new, s). length s)") (auto simp: neq_Nil_conv)

definition replace :: "'a list \<Rightarrow> 'a list \<Rightarrow> 'a list \<Rightarrow> 'a list" where
  "replace old new s =
     (if old = [] then new @ concat (map (\<lambda>c. c # new) s) else replace_from old new s)"

text \<open>The substring test \<^verbatim>\<open>old in s\<close>: the anchor matcher.\<close>

fun occurs :: "'a list \<Rightarrow> 'a list \<Rightarrow> bool" where
  "occurs old [] = (old = [])"
| "occurs old (c # cs) = (if starts_with (c # cs) old then True else occurs old cs)"

text \<open>
  A step pairs an anchor with its replacement; applying it is one call of
  \<^verbatim>\<open>content.replace(anchor, replacement)\<close>. A pipeline applies its steps from left to
  right, each to the buffer the previous one returned.
\<close>

type_synonym 'a step = "'a list \<times> 'a list"

definition apply_step :: "'a step \<Rightarrow> 'a list \<Rightarrow> 'a list" where
  "apply_step st b = replace (fst st) (snd st) b"

fun run :: "'a list \<Rightarrow> 'a step list \<Rightarrow> 'a list" where
  "run b [] = b"
| "run b (st # sts) = run (apply_step st b) sts"

text \<open>The steps of a pipeline whose anchors occur in the buffer they are applied to.\<close>

fun matched :: "'a list \<Rightarrow> 'a step list \<Rightarrow> 'a step list" where
  "matched b [] = []"
| "matched b (st # sts) =
     (if occurs (fst st) b then st # matched (apply_step st b) sts else matched b sts)"

text \<open>
  \<^verbatim>\<open>s.split(old)\<close> and \<^verbatim>\<open>sep.join(ps)\<close>, to say what a substitution does to every
  occurrence: the pieces of the text between the occurrences that the scan finds.
\<close>

function pieces :: "'a list \<Rightarrow> 'a list \<Rightarrow> 'a list list" where
  "pieces old [] = [[]]"
| "pieces old (c # cs) =
     (if old \<noteq> [] \<and> starts_with (c # cs) old
      then [] # pieces old (drop (length old) (c # cs))
      else (c # hd (pieces old cs)) # tl (pieces old cs))"
  by pat_completeness auto
termination
  by (relation "measure (\<lambda>(old, s). length s)") (auto simp: neq_Nil_conv)

fun join :: "'a list \<Rightarrow> 'a list list \<Rightarrow> 'a list" where
  "join sep [] = []"
| "join sep [p] = p"
| "join sep (p # ps) = p @ sep @ join sep ps"

text \<open>
  The step as the specification words it, for comparison with \<open>replace\<close>: only the
  leftmost occurrence of the anchor is replaced and the text after it is kept as it is.
\<close>

fun replace_first_spec :: "'a list \<Rightarrow> 'a list \<Rightarrow> 'a list \<Rightarrow> 'a list" where
  "replace_first_spec old new [] = []"
| "replace_first_spec old new (c # cs) =
     (if starts_with (c # cs) old then new @ drop (length old) (c # cs)
      else c # replace_first_spec old new cs)"

section \<open>The seven steps of the script\<close>

text \<open>Step 1 adds two icons to the import from lucide-react.\<close>

definition old_imports :: buffer where
  \<open>old_imports = block
    [''import {'',
     ''    Calendar,'',
     ''    List,'',
     ''    Plus,'',
     ''    Edit2,'',
     ''    Trash2,'',
     ''    ChevronLeft,'',
     ''    ChevronRight,'',
     ''    ChevronDown,'',
     ''    ChevronUp,'',
     ''    X,'',
     ''    Save,'',
     ''    ExternalLink,'',
     ''    Eye,'',
     ''    RotateCcw'',
     ''} from "lucide-react"'']\<close>

definition new_imports :: buffer where
  \<open>new_imports = block
    [''import {'',
     ''    Calendar,'',
     ''    List,'',
     ''    Plus,'',
     ''    Edit2,'',
     ''    Trash2,'',
     ''    ChevronLeft,'',
     ''    ChevronRight,'',
     ''    ChevronDown,'',
     ''    ChevronUp,'',
     ''    X,'',
     ''    Save,'',
     ''    ExternalLink,'',
     ''    Eye,'',
     ''    RotateCcw,'',
     ''    Copy,'',
     ''    HelpCircle'',
     ''} from "lucide-react"'']\<close>

text \<open>Step 2 adds the imports of the hook and of the two new components.\<close>

definition old_component_imports :: buffer where
  \<open>old_component_imports = block
    [''import { useAdminSchedule } from "@/hooks/use-admin-data"'',
     ''import TimesheetDetail from "@/components/TimesheetDetail"'']\<close>

definition new_component_imports :: buffer where
  \<open>new_component_imports = block
    [''import { useAdminSchedule } from "@/hooks/use-admin-data"'',
     ''import { useKeyboardShortcuts } from "@/hooks/use-keyboard-shortcuts"'',
     ''import TimesheetDetail from "@/components/TimesheetDetail"'',
     ''import DuplicateShiftModal from "@/components/DuplicateShiftModal"'',
     ''import KeyboardShortcutsHelp from "@/components/KeyboardShortcutsHelp"'']\<close>

text \<open>Step 3 adds the state variables of the two new modals after the state of the timesheet modal.\<close>

definition old_timesheet_state :: buffer where
  \<open>old_timesheet_state = block
    [''    // TimesheetDetail Modal State'',
     ''    const [showTimesheetDetail, setShowTimesheetDetail] = useState(false)'',
     ''    const [selectedTimesheetData, setSelectedTimesheetData] = useState<{'',
     ''        employeeId: string'',
     ''        clientId: string'',
     ''    } | null>(null)'']\<close>

definition new_timesheet_state :: buffer where
  \<open>new_timesheet_state = block
    [''    // TimesheetDetail Modal State'',
     ''    const [showTimesheetDetail, setShowTimesheetDetail] = useState(false)'',
     ''    const [selectedTimesheetData, setSelectedTimesheetData] = useState<{'',
     ''        employeeId: string'',
     ''        clientId: string'',
     ''    } | null>(null)'',
     '''',
     ''    // Duplicate Shift Modal State'',
     ''    const [showDuplicateModal, setShowDuplicateModal] = useState(false)'',
     ''    const [shiftToDuplicate, setShiftToDuplicate] = useState<Shift | null>(null)'',
     '''',
     ''    // Keyboard Shortcuts Help Modal State'',
     ''    const [showShortcutsHelp, setShowShortcutsHelp] = useState(false)'']\<close>

text \<open>Step 4 adds the duplication handlers and the keyboard shortcuts before \<open>navigateMonth\<close>.\<close>

definition old_navigate_section :: buffer where
  \<open>old_navigate_section = block
    [''    const closeTimesheetPreview = () => {'',
     ''        setShowTimesheetDetail(false)'',
     ''        setSelectedTimesheetData(null)'',
     ''    }'',
     '''',
     ''    const navigateMonth = (delta: number) => {'']\<close>

definition new_navigate_section :: buffer where
  \<open>new_navigate_section = block
    [''    const closeTimesheetPreview = () => {'',
     ''        setShowTimesheetDetail(false)'',
     ''        setSelectedTimesheetData(null)'',
     ''    }'',
     '''',
     ''    // Duplicate Shift Handler'',
     ''    const openDuplicateModal = useCallback((shift: Shift) => {'',
     ''        setShiftToDuplicate(shift)'',
     ''        setShowDuplicateModal(true)'',
     ''    }, [])'',
     '''',
     ''    const handleDuplicateShift = async (targetDate: string) => {'',
     ''        if (!shiftToDuplicate) return'',
     '''',
     ''        try {'',
     ''            const res = await fetch("/api/admin/schedule", {'',
     ''                method: "POST",'',
     ''                headers: { "Content-Type": "application/json" },'',
     ''                body: JSON.stringify({'',
     ''                    employeeId: shiftToDuplicate.employee.id,'',
     ''                    date: targetDate,'',
     ''                    plannedStart: shiftToDuplicate.plannedStart,'',
     ''                    plannedEnd: shiftToDuplicate.plannedEnd,'',
     ''                    backupEmployeeId: shiftToDuplicate.backupEmployee?.id || null,'',
     ''                    note: shiftToDuplicate.note || null'',
     ''                })'',
     ''            })'',
     '''',
     ''            if (res.ok) {'',
     ''                showToast("success", "Schicht erfolgreich dupliziert")'',
     ''                setShowDuplicateModal(false)'',
     ''                setShiftToDuplicate(null)'',
     ''                mutate() // Revalidate data'',
     ''            } else {'',
     ''                const data = await res.json()'',
     ''                showToast("error", data.error || "Fehler beim Duplizieren")'',
     ''            }'',
     ''        } catch (error) {'',
     ''            console.error("Duplication error:", error)'',
     ''            showToast("error", "Netzwerkfehler beim Duplizieren")'',
     ''        }'',
     ''    }'',
     '''',
     ''    // Keyboard Shortcuts'',
     ''    useKeyboardShortcuts({'',
     ''        onNewShift: () => !showModal && !showDuplicateModal && !showShortcutsHelp && openCreateModal(),'',
     ''        onEscape: () => {'',
     ''            if (showModal) setShowModal(false)'',
     ''            else if (showDuplicateModal) setShowDuplicateModal(false)'',
     ''            else if (showShortcutsHelp) setShowShortcutsHelp(false)'',
     ''            else if (showTimesheetDetail) closeTimesheetPreview()'',
     ''        },'',
     ''        onSave: () => showModal && handleCreateOrUpdate(),'',
     ''        onPrevMonth: () => !showModal && !showDuplicateModal && !showShortcutsHelp && navigateMonth(-1),'',
     ''        onNextMonth: () => !showModal && !showDuplicateModal && !showShortcutsHelp && navigateMonth(1),'',
     ''        onListView: () => !showModal && !showDuplicateModal && !showShortcutsHelp && setViewMode("list"),'',
     ''        onCalendarView: () => !showModal && !showDuplicateModal && !showShortcutsHelp && setViewMode("calendar"),'',
     ''        onHelp: () => setShowShortcutsHelp(prev => !prev)'',
     ''    }, true)'',
     '''',
     ''    const navigateMonth = (delta: number) => {'']\<close>

text \<open>Step 5 adds the help button to the header.\<close>

definition old_header_buttons :: buffer where
  \<open>old_header_buttons = block
    [''                    <div className="flex items-center gap-3">'',
     ''                        {/* View Toggle */}'',
     ''                        <div className="flex bg-neutral-800 rounded-lg p-1">'']\<close>

definition new_header_buttons :: buffer where
  \<open>new_header_buttons = block
    [''                    <div className="flex items-center gap-3">'',
     ''                        {/* Keyboard Shortcuts Help */}'',
     ''                        <button'',
     ''                            onClick={() => setShowShortcutsHelp(true)}'',
     ''                            className="p-2 hover:bg-neutral-800 rounded-lg transition text-neutral-400 hover:text-white"'',
     ''                            title="Tastenkombinationen (Dr'' @ [CHR 0xFC] @ ''cke ?)"'',
     ''                            aria-label="Tastenkombinationen anzeigen"'',
     ''                        >'',
     ''                            <HelpCircle size={20} />'',
     ''                        </button>'',
     '''',
     ''                        {/* View Toggle */}'',
     ''                        <div className="flex bg-neutral-800 rounded-lg p-1">'']\<close>

text \<open>Step 6 adds the copy button to the action buttons of a table row.\<close>

definition old_action_buttons :: buffer where
  \<open>old_action_buttons = block
    [''                                                                    <div className="flex gap-1 justify-end">'',
     ''                                                                        <button'',
     ''                                                                            onClick={(e) => {'',
     ''                                                                                e.stopPropagation()'',
     ''                                                                                openTimesheetPreview(shift)'',
     ''                                                                            }}'',
     ''                                                                            className="p-1.5 text-neutral-500 hover:text-violet-400 hover:bg-violet-900/30 rounded transition"'',
     ''                                                                            title="Stundennachweis anzeigen"'',
     ''                                                                        >'',
     ''                                                                            <Eye size={14} />'',
     ''                                                                        </button>'',
     ''                                                                        <button'',
     ''                                                                            onClick={() => openEditModal(shift)}'',
     ''                                                                            className="p-1.5 text-neutral-500 hover:text-blue-400 hover:bg-blue-900/30 rounded transition"'',
     ''                                                                        >'',
     ''                                                                            <Edit2 size={14} />'',
     ''                                                                        </button>'',
     ''                                                                        <button'',
     ''                                                                            onClick={() => handleDelete(shift.id)}'',
     ''                                                                            className="p-1.5 text-neutral-500 hover:text-red-400 hover:bg-red-900/30 rounded transition"'',
     ''                                                                        >'',
     ''                                                                            <Trash2 size={14} />'',
     ''                                                                        </button>'',
     ''                                                                    </div>'']\<close>

definition new_action_buttons :: buffer where
  \<open>new_action_buttons = block
    [''                                                                    <div className="flex gap-1 justify-end">'',
     ''                                                                        <button'',
     ''                                                                            onClick={(e) => {'',
     ''                                                                                e.stopPropagation()'',
     ''                                                                                openTimesheetPreview(shift)'',
     ''                                                                            }}'',
     ''                                                                            className="p-1.5 text-neutral-500 hover:text-violet-400 hover:bg-violet-900/30 rounded transition"'',
     ''                                                                            title="Stundennachweis anzeigen"'',
     ''                                                                        >'',
     ''                                                                            <Eye size={14} />'',
     ''                                                                        </button>'',
     ''                                                                        <button'',
     ''                                                                            onClick={(e) => {'',
     ''                                                                                e.stopPropagation()'',
     ''                                                                                openDuplicateModal(shift)'',
     ''                                                                            }}'',
     ''                                                                            className="p-1.5 text-neutral-500 hover:text-violet-400 hover:bg-violet-900/30 rounded transition"'',
     ''                                                                            title="Schicht duplizieren"'',
     ''                                                                        >'',
     ''                                                                            <Copy size={14} />'',
     ''                                                                        </button>'',
     ''                                                                        <button'',
     ''                                                                            onClick={() => openEditModal(shift)}'',
     ''                                                                            className="p-1.5 text-neutral-500 hover:text-blue-400 hover:bg-blue-900/30 rounded transition"'',
     ''                                                                        >'',
     ''                                                                            <Edit2 size={14} />'',
     ''                                                                        </button>'',
     ''                                                                        <button'',
     ''                                                                            onClick={() => handleDelete(shift.id)}'',
     ''                                                                            className="p-1.5 text-neutral-500 hover:text-red-400 hover:bg-red-900/30 rounded transition"'',
     ''                                                                        >'',
     ''                                                                            <Trash2 size={14} />'',
     ''                                                                        </button>'',
     ''                                                                    </div>'']\<close>

text \<open>Step 7 adds the two modals before the closing tags of the page.\<close>

definition old_timesheet_modal :: buffer where
  \<open>old_timesheet_modal = block
    [''                {/* Timesheet Detail Modal */}'',
     ''                {showTimesheetDetail && selectedTimesheetData && ('',
     ''                    <TimesheetDetail'',
     ''                        employeeId={selectedTimesheetData.employeeId}'',
     ''                        clientId={selectedTimesheetData.clientId}'',
     ''                        month={month}'',
     ''                        year={year}'',
     ''                        onClose={closeTimesheetPreview}'',
     ''                    />'',
     ''                )}'',
     ''            </div>'',
     ''        </div>'',
     ''    )'',
     ''}'']\<close>

definition new_timesheet_modal :: buffer where
  \<open>new_timesheet_modal = block
    [''                {/* Timesheet Detail Modal */}'',
     ''                {showTimesheetDetail && selectedTimesheetData && ('',
     ''                    <TimesheetDetail'',
     ''                        employeeId={selectedTimesheetData.employeeId}'',
     ''                        clientId={selectedTimesheetData.clientId}'',
     ''                        month={month}'',
     ''                        year={year}'',
     ''                        onClose={closeTimesheetPreview}'',
     ''                    />'',
     ''                )}'',
     '''',
     ''                {/* Duplicate Shift Modal */}'',
     ''                {showDuplicateModal && shiftToDuplicate && ('',
     ''                    <DuplicateShiftModal'',
     ''                        shift={shiftToDuplicate}'',
     ''                        onClose={() => {'',
     ''                            setShowDuplicateModal(false)'',
     ''                            setShiftToDuplicate(null)'',
     ''                        }}'',
     ''                        onDuplicate={handleDuplicateShift}'',
     ''                    />'',
     ''                )}'',
     '''',
     ''                {/* Keyboard Shortcuts Help Modal */}'',
     ''                {showShortcutsHelp && ('',
     ''                    <KeyboardShortcutsHelp'',
     ''                        onClose={() => setShowShortcutsHelp(false)}'',
     ''                    />'',
     ''                )}'',
     ''            </div>'',
     ''        </div>'',
     ''    )'',
     ''}'']\<close>

definition pipeline :: "codepoint step list" where
  "pipeline =
     [(old_imports, new_imports),
      (old_component_imports, new_component_imports),
      (old_timesheet_state, new_timesheet_state),
      (old_navigate_section, new_navigate_section),
      (old_header_buttons, new_header_buttons),
      (old_action_buttons, new_action_buttons),
      (old_timesheet_modal, new_timesheet_modal)]"

text \<open>The seven assignments \<^verbatim>\<open>content = content.replace(old, new)\<close> of the script.\<close>

definition transform :: "buffer \<Rightarrow> buffer" where
  "transform content0 =
     (let content1 = replace old_imports new_imports content0;
          content2 = replace old_component_imports new_component_imports content1;
          content3 = replace old_timesheet_state new_timesheet_state content2;
          content4 = replace old_navigate_section new_navigate_section content3;
          content5 = replace old_header_buttons new_header_buttons content4;
          content6 = replace old_action_buttons new_action_buttons content5;
          content7 = replace old_timesheet_modal new_timesheet_modal content6
      in content7)"

section \<open>The file transaction\<close>

text \<open>
  The script opens the page twice, both times in text mode with the UTF-8 codec:
  \<^verbatim>\<open>open(path, "r", encoding="utf-8")\<close> to read it and
  \<^verbatim>\<open>open(path, "w", encoding="utf-8")\<close> to write it back. The strict UTF-8 codec is
  one-to-one between valid byte sequences and sequences of code points, so the stored
  file is given by its decoded text; a file whose bytes do not decode counts as not
  readable.

  Text mode translates line breaks. On reading, with the default \<^verbatim>\<open>newline=None\<close>,
  each of CR LF, CR and LF becomes one line feed. On writing, each line feed becomes
  \<^verbatim>\<open>os.linesep\<close>: a line feed on a POSIX platform, CR LF on Windows.
\<close>

datatype platform = Posix | Windows

definition LF :: codepoint where
  "LF = 10"

definition CR :: codepoint where
  "CR = 13"

fun linesep :: "platform \<Rightarrow> buffer" where
  "linesep Posix = [LF]"
| "linesep Windows = [CR, LF]"

fun universal_newlines :: "buffer \<Rightarrow> buffer" where
  "universal_newlines [] = []"
| "universal_newlines [c] = (if c = CR then [LF] else [c])"
| "universal_newlines (c # d # cs) =
     (if c = CR \<and> d = LF then LF # universal_newlines cs
      else if c = CR then LF # universal_newlines (d # cs)
      else c # universal_newlines (d # cs))"

definition write_newlines :: "platform \<Rightarrow> buffer \<Rightarrow> buffer" where
  "write_newlines p s = concat (map (\<lambda>c. if c = LF then linesep p else [c]) s)"

text \<open>
  The world of the script: the target file, which is missing or has read and write
  permissions and a stored text; the number of code points the medium accepts before a
  write fails (\<open>None\<close> when it accepts all); the lines printed so far. The script
  raises what \<^verbatim>\<open>open\<close>, \<^verbatim>\<open>read\<close> and \<^verbatim>\<open>write\<close> raise, and catches
  nothing.
\<close>

datatype disk_file = Missing | File bool bool buffer

record world =
  target :: disk_file
  capacity :: "nat option"
  stdout :: "buffer list"

datatype error = ReadFailure | WriteFailure

text \<open>
  Reading fails where the file is missing or not readable, and leaves the world as it
  is.
\<close>

definition read_text :: "world \<Rightarrow> error + buffer" where
  "read_text w =
     (case target w of
        Missing \<Rightarrow> Inl ReadFailure
      | File readable writable stored \<Rightarrow>
          if readable then Inr (universal_newlines stored) else Inl ReadFailure)"

text \<open>
  \<^verbatim>\<open>open(path, "w")\<close> fails on a file without write permission and leaves it as it is.
  Otherwise it truncates the file, or creates it, before anything is written;
  \<^verbatim>\<open>f.write(content)\<close> and the close at the end of the \<^verbatim>\<open>with\<close> block then
  send the text to the medium. Where the medium fails, the file keeps what was stored
  until then.
\<close>

definition persist :: "bool \<Rightarrow> bool \<Rightarrow> buffer \<Rightarrow> world \<Rightarrow> (error + unit) \<times> world" where
  "persist readable writable data w =
     (case capacity w of
        None \<Rightarrow> (Inr (), w\<lparr>target := File readable writable data\<rparr>)
      | Some n \<Rightarrow>
          if length data \<le> n then (Inr (), w\<lparr>target := File readable writable data\<rparr>)
          else (Inl WriteFailure, w\<lparr>target := File readable writable (take n data)\<rparr>))"

definition write_text :: "platform \<Rightarrow> buffer \<Rightarrow> world \<Rightarrow> (error + unit) \<times> world" where
  "write_text p content w =
     (case target w of
        Missing \<Rightarrow> persist True True (write_newlines p content) w
      | File readable writable stored \<Rightarrow>
          if writable then persist readable writable (write_newlines p content) w
          else (Inl WriteFailure, w))"

text \<open>
  The five \<^verbatim>\<open>print\<close> calls that end the script; standard output is taken to accept
  them.
\<close>

definition banner :: "buffer list" where
  "banner =
     [[9989] @ codepoints '' Schedule page updated successfully!'',
      codepoints ''Added features:'',
      codepoints ''  - Keyboard shortcuts (N, ESC, Ctrl+S, '' @ [8592] @ codepoints '', '' @ [8594] @
        codepoints '', L, C, ?)'',
      codepoints ''  - Shift duplication with quick options and custom date picker'',
      codepoints ''  - Keyboard shortcuts help modal'']"

text \<open>
  The script reads, transforms, writes and prints; an exception ends it at once. The
  script has its seven steps written out; \<open>execute\<close> is the same transaction for any
  list of steps.
\<close>

definition transaction ::
  "platform \<Rightarrow> (buffer \<Rightarrow> buffer) \<Rightarrow> world \<Rightarrow> (error + unit) \<times> world" where
  "transaction p f w =
     (case read_text w of
        Inl e \<Rightarrow> (Inl e, w)
      | Inr content \<Rightarrow>
          (case write_text p (f content) w of
             (Inl e, w') \<Rightarrow> (Inl e, w')
           | (Inr u, w') \<Rightarrow> (Inr (), w'\<lparr>stdout := stdout w' @ banner\<rparr>)))"

definition script :: "platform \<Rightarrow> world \<Rightarrow> (error + unit) \<times> world" where
  "script p w = transaction p transform w"

definition execute :: "platform \<Rightarrow> codepoint step list \<Rightarrow> world \<Rightarrow> (error + unit) \<times> world" where
  "execute p steps w = transaction p (\<lambda>content. run content steps) w"

text \<open>
  A stored text has native line breaks when every line break in it is the line separator
  of the platform.
\<close>

fun native_newlines :: "platform \<Rightarrow> buffer \<Rightarrow> bool" where
  "native_newlines Posix s = (CR \<notin> set s)"
| "native_newlines Windows [] = True"
| "native_newlines Windows [c] = (c \<noteq> CR \<and> c \<noteq> LF)"
| "native_newlines Windows (c # d # cs) =
     (if c = CR then d = LF \<and> native_newlines Windows cs
      else c \<noteq> LF \<and> native_newlines Windows (d # cs))"

section \<open>Lemmas on matching and substitution\<close>

lemma starts_with_iff: "starts_with s old \<longleftrightarrow> (\<exists>suf. s = old @ suf)"
  by (induction s old rule: starts_with.induct) auto

lemma starts_with_append [simp]: "starts_with (old @ rest) old"
  by (simp add: starts_with_iff)

lemma starts_with_drop: "starts_with s old \<Longrightarrow> old @ drop (length old) s = s"
  by (auto simp: starts_with_iff)

lemma starts_with_within:
  assumes "starts_with (a @ b) old" and "length old \<le> length a"
  shows "starts_with a old"
proof -
  from assms(1) obtain suf where eq: "a @ b = old @ suf"
    by (auto simp: starts_with_iff)
  from assms(2) have "a = old @ drop (length old) a"
    using eq by (metis append_eq_append_conv_if append_take_drop_id)
  then show ?thesis
    by (metis starts_with_append)
qed

lemma occurs_Nil [simp]: "occurs [] s"
  by (cases s) auto



lemma replace_from_absent: "\<not> occurs old s \<Longrightarrow> replace_from old new s = s"
  by (induction s) (auto split: if_splits)

lemma replace_absent: "\<not> occurs old s \<Longrightarrow> replace old new s = s"
  by (cases "old = []") (auto simp: replace_def replace_from_absent)

lemma apply_step_absent: "\<not> occurs (fst st) b \<Longrightarrow> apply_step st b = b"
  by (simp add: apply_step_def replace_absent)

lemma replace_from_at_anchor:
  "old \<noteq> [] \<Longrightarrow> replace_from old new (old @ rest) = new @ replace_from old new rest"
  by (cases old) auto

lemma replace_from_before_anchor:
  assumes "old \<noteq> []" and "\<not> occurs old (pre @ butlast old)"
  shows "replace_from old new (pre @ old @ rest) = pre @ new @ replace_from old new rest"
  using assms(2)
proof (induction pre)
  case Nil
  with assms(1) show ?case by (simp add: replace_from_at_anchor)
next
  case (Cons p ps)
  have split: "(p # ps) @ old @ rest = ((p # ps) @ butlast old) @ (last old # rest)"
    using assms(1) by simp
  have "\<not> starts_with ((p # ps) @ old @ rest) old"
  proof
    assume "starts_with ((p # ps) @ old @ rest) old"
    then have "starts_with (((p # ps) @ butlast old) @ (last old # rest)) old"
      by (metis split)
    moreover have "length old \<le> length ((p # ps) @ butlast old)"
      by simp
    ultimately have "starts_with ((p # ps) @ butlast old) old"
      by (rule starts_with_within)
    then have "occurs old ((p # ps) @ butlast old)"
      by simp
    with Cons.prems show False by contradiction
  qed
  moreover from Cons.prems have "\<not> occurs old (ps @ butlast old)"
    by (auto split: if_splits)
  ultimately show ?case
    using Cons.IH by simp
qed

lemma run_snoc: "run b (sts @ [st]) = apply_step st (run b sts)"
  by (induction sts arbitrary: b) simp_all




subsection \<open>Splitting at the occurrences\<close>

lemma pieces_nonempty [simp]: "pieces old s \<noteq> []"
  by (induction old s rule: pieces.induct) auto

lemma join_Cons: "ps \<noteq> [] \<Longrightarrow> join sep (p # ps) = p @ sep @ join sep ps"
  by (cases ps) simp_all

lemma join_pieces: "old \<noteq> [] \<Longrightarrow> join old (pieces old s) = s"
proof (induction old s rule: pieces.induct)
  case (1 old)
  then show ?case by simp
next
  case (2 old c cs)
  show ?case
  proof (cases "starts_with (c # cs) old")
    case True
    with 2 have "join old (pieces old (c # cs)) = old @ drop (length old) (c # cs)"
      by (simp add: join_Cons)
    also have "\<dots> = c # cs"
      using True by (rule starts_with_drop)
    finally show ?thesis .
  next
    case False
    have ne: "pieces old cs \<noteq> []" by simp
    then obtain p ps where ps: "pieces old cs = p # ps"
      by (cases "pieces old cs") auto
    from False 2 have "join old (p # ps) = cs"
      by (simp add: ps)
    with False ps show ?thesis
      by (cases ps) simp_all
  qed
qed

lemma replace_from_pieces: "old \<noteq> [] \<Longrightarrow> replace_from old new s = join new (pieces old s)"
proof (induction old s rule: pieces.induct)
  case (1 old)
  then show ?case by simp
next
  case (2 old c cs)
  show ?case
  proof (cases "starts_with (c # cs) old")
    case True
    with 2 show ?thesis
      by (simp add: join_Cons)
  next
    case False
    obtain p ps where ps: "pieces old cs = p # ps"
      by (cases "pieces old cs") auto
    from False 2 have "replace_from old new cs = join new (p # ps)"
      by (simp add: ps)
    with False ps show ?thesis
      by (cases ps) simp_all
  qed
qed

lemma hd_pieces_prefix: "old \<noteq> [] \<Longrightarrow> \<exists>rest. s = hd (pieces old s) @ rest"
proof -
  assume ne: "old \<noteq> []"
  obtain p ps where ps: "pieces old s = p # ps"
    by (cases "pieces old s") auto
  from ne have "join old (p # ps) = s"
    using join_pieces[of old s] by (simp add: ps)
  then show ?thesis
    by (cases ps) (auto simp: ps)
qed

lemma pieces_free: "old \<noteq> [] \<Longrightarrow> p \<in> set (pieces old s) \<Longrightarrow> \<not> occurs old p"
proof (induction old s arbitrary: p rule: pieces.induct)
  case (1 old)
  then show ?case by simp
next
  case (2 old c cs)
  show ?case
  proof (cases "starts_with (c # cs) old")
    case True
    with 2 show ?thesis by auto
  next
    case False
    obtain q qs where qs: "pieces old cs = q # qs"
      by (cases "pieces old cs") auto
    from False 2 have free: "\<And>r. r \<in> set (q # qs) \<Longrightarrow> \<not> occurs old r"
      by (simp add: qs)
    from False 2 qs have "p = c # q \<or> p \<in> set qs"
      by auto
    then show ?thesis
    proof
      assume p: "p = c # q"
      obtain rest where cs: "cs = q @ rest"
        using hd_pieces_prefix[OF "2.prems"(1), of cs] by (auto simp: qs)
      have "\<not> starts_with (c # q) old"
      proof
        assume "starts_with (c # q) old"
        then obtain suf where "c # q = old @ suf" by (auto simp: starts_with_iff)
        then have "c # cs = old @ (suf @ rest)" using cs by simp
        then have "starts_with (c # cs) old" by (metis starts_with_append)
        with False show False by contradiction
      qed
      moreover have "\<not> occurs old q" using free by simp
      ultimately show ?thesis using p by simp
    next
      assume "p \<in> set qs"
      then show ?thesis using free by simp
    qed
  qed
qed

subsection \<open>Blocks of lines\<close>














section \<open>Lemmas on the seven steps\<close>

lemma transform_run: "transform content = run content pipeline"
  by (simp add: transform_def pipeline_def apply_step_def)


subsection \<open>Characters that tell the blocks apart\<close>






















subsection \<open>The script on two of its own blocks\<close>










section \<open>Lemmas on the file transaction\<close>

lemma universal_newlines_no_CR: "CR \<notin> set s \<Longrightarrow> universal_newlines s = s"
  by (induction s rule: universal_newlines.induct) auto

lemma write_newlines_Posix: "write_newlines Posix s = s"
  by (induction s) (auto simp: write_newlines_def)

lemma newlines_round_trip_Windows:
  "native_newlines Windows s \<Longrightarrow> write_newlines Windows (universal_newlines s) = s"
  by (induction s rule: universal_newlines.induct)
     (auto simp: write_newlines_def CR_def LF_def split: if_splits)

lemma newlines_round_trip:
  "native_newlines p s \<Longrightarrow> write_newlines p (universal_newlines s) = s"
  by (cases p) (simp_all add: universal_newlines_no_CR write_newlines_Posix newlines_round_trip_Windows)


lemma script_execute: "script p w = execute p pipeline w"
proof -
  have "transform = (\<lambda>content. run content pipeline)"
    by (rule ext) (rule transform_run)
  then show ?thesis
    by (simp add: script_def execute_def)
qed



lemma transaction_on_file:
  assumes "target w = File True writable stored"
  shows "transaction p f w =
     (if writable
      then (case persist True writable (write_newlines p (f (universal_newlines stored))) w of
              (Inl e, w') \<Rightarrow> (Inl e, w')
            | (Inr u, w') \<Rightarrow> (Inr (), w'\<lparr>stdout := stdout w' @ banner\<rparr>))
      else (Inl WriteFailure, w))"
  using assms by (simp add: transaction_def read_text_def write_text_def)

lemma transaction_unreadable:
  assumes "target w = Missing \<or> target w = File False writable stored"
  shows "transaction p f w = (Inl ReadFailure, w)"
  using assms by (auto simp: transaction_def read_text_def)

lemma transaction_completes:
  assumes "target w = File readable writable stored" and "fst (transaction p f w) = Inr ()"
  shows "readable \<and> writable \<and>
         target (snd (transaction p f w)) =
           File readable writable (write_newlines p (f (universal_newlines stored)))"
  using assms
  by (auto simp: transaction_def read_text_def write_text_def persist_def
           split: if_splits option.splits)



section \<open>Properties of a substitution step and of a pipeline\<close>

text \<open>
  C1, as the code has it. The claim says that only the leftmost occurrence of the anchor
  is replaced. The code calls \<^verbatim>\<open>str.replace\<close> without a count: where the anchor
  is not empty and its leftmost occurrence starts after \<open>pre\<close>, the step replaces that
  occurrence and goes on in the same way with the text after it, so every further
  occurrence that the scan finds is replaced as well.
\<close>

theorem step_replaces_leftmost_and_continues:
  assumes "anchor \<noteq> []" and "\<not> occurs anchor (pre @ butlast anchor)"
  shows "apply_step (anchor, replacement) (pre @ anchor @ rest) =
           pre @ replacement @ apply_step (anchor, replacement) rest"
  using assms by (simp add: apply_step_def replace_def replace_from_before_anchor)

theorem step_replaces_leftmost_and_continues_witness:
  "codepoints ''B'' \<noteq> [] \<and>
   \<not> occurs (codepoints ''B'') (codepoints ''A'' @ butlast (codepoints ''B'')) \<and>
   apply_step (codepoints ''B'', codepoints ''B2'')
       (codepoints ''A'' @ codepoints ''B'' @ codepoints ''CB'') =
     codepoints ''A'' @ codepoints ''B2'' @
       apply_step (codepoints ''B'', codepoints ''B2'') (codepoints ''CB'') \<and>
   apply_step (codepoints ''B'', codepoints ''B2'') (codepoints ''CB'') = codepoints ''CB2''"
proof -
  have a: "codepoints ''B'' \<noteq> []"
    by (simp add: codepoints_def)
  have b: "\<not> occurs (codepoints ''B'') (codepoints ''A'' @ butlast (codepoints ''B''))"
    by (simp add: codepoints_def)
  have c: "apply_step (codepoints ''B'', codepoints ''B2'') (codepoints ''CB'') = codepoints ''CB2''"
    by (simp add: apply_step_def replace_def codepoints_def)
  from a b c step_replaces_leftmost_and_continues [OF a b, of "codepoints ''B2''" "codepoints ''CB''"]
  show ?thesis by simp
qed

text \<open>
  C1 as the specification states it fails where the anchor occurs twice: the second
  occurrence is replaced too.
\<close>

theorem second_occurrence_is_replaced:
  "occurs (codepoints ''B'') (codepoints ''ABCB'') \<and>
   apply_step (codepoints ''B'', codepoints ''B2'') (codepoints ''ABCB'') = codepoints ''AB2CB2'' \<and>
   replace_first_spec (codepoints ''B'') (codepoints ''B2'') (codepoints ''ABCB'') = codepoints ''AB2CB'' \<and>
   apply_step (codepoints ''B'', codepoints ''B2'') (codepoints ''ABCB'') \<noteq>
     replace_first_spec (codepoints ''B'') (codepoints ''B2'') (codepoints ''ABCB'')"
  by (simp add: apply_step_def replace_def codepoints_def)






text \<open>
  C4: where the anchor of \<open>B\<close> is not in the buffer and is in what \<open>A\<close> returns, both
  steps of \<open>[A, B]\<close> match and \<open>B\<close> works on the output of \<open>A\<close>, while in \<open>[B, A]\<close> only
  \<open>A\<close> matches and the result is that of \<open>A\<close> alone. A pipeline applies its steps from
  left to right: its last step works on what the steps before it returned.
\<close>

theorem order_sensitivity:
  assumes "\<not> occurs (fst B) b" and "occurs (fst B) (apply_step A b)"
  shows "matched b [A, B] = [A, B] \<and> run b [A, B] = apply_step B (apply_step A b) \<and>
         matched b [B, A] = [A] \<and> run b [B, A] = apply_step A b \<and>
         run c (sts @ [st]) = apply_step st (run c sts)"
proof -
  have "occurs (fst A) b"
  proof (rule ccontr)
    assume "\<not> occurs (fst A) b"
    then have "apply_step A b = b" by (rule apply_step_absent)
    with assms show False by simp
  qed
  with assms show ?thesis
    by (simp add: apply_step_absent run_snoc)
qed

theorem order_sensitivity_witness:
  "\<not> occurs (fst (codepoints ''B'', codepoints ''C'')) (codepoints ''A'') \<and>
   occurs (fst (codepoints ''B'', codepoints ''C''))
     (apply_step (codepoints ''A'', codepoints ''AB'') (codepoints ''A'')) \<and>
   run (codepoints ''A'') [(codepoints ''A'', codepoints ''AB''), (codepoints ''B'', codepoints ''C'')] =
     codepoints ''AC'' \<and>
   run (codepoints ''A'') [(codepoints ''B'', codepoints ''C''), (codepoints ''A'', codepoints ''AB'')] =
     codepoints ''AB''"
proof -
  have a: "\<not> occurs (fst (codepoints ''B'', codepoints ''C'')) (codepoints ''A'')"
    by (simp add: codepoints_def)
  have s: "apply_step (codepoints ''A'', codepoints ''AB'') (codepoints ''A'') = codepoints ''AB''"
    by (simp add: apply_step_def replace_def codepoints_def)
  have b: "occurs (fst (codepoints ''B'', codepoints ''C''))
     (apply_step (codepoints ''A'', codepoints ''AB'') (codepoints ''A''))"
    unfolding s by (simp add: codepoints_def)
  have t: "apply_step (codepoints ''B'', codepoints ''C'') (codepoints ''AB'') = codepoints ''AC''"
    by (simp add: apply_step_def replace_def codepoints_def)
  from a b s t order_sensitivity [OF a b, of "[]" "[]" "([], [])"]
  show ?thesis by simp
qed

text \<open>
  C9, as the code has it. The claim says that the buffer a step returns holds no
  occurrence of the anchor when the replacement holds none. The scan is a single pass:
  for an anchor that is not empty, the buffer splits at the occurrences that the scan
  finds into pieces, none of which holds the anchor, and the step returns these pieces
  joined by the replacement. Every one of these occurrences is replaced, not only the
  first; nothing is said of the places where a replacement meets the text around it.
\<close>

theorem step_is_split_then_join:
  assumes "fst st \<noteq> []"
  shows "apply_step st b = join (snd st) (pieces (fst st) b) \<and>
         join (fst st) (pieces (fst st) b) = b \<and>
         (\<forall>p \<in> set (pieces (fst st) b). \<not> occurs (fst st) p)"
  using assms
  by (simp add: apply_step_def replace_def replace_from_pieces join_pieces pieces_free)

theorem step_is_split_then_join_witness:
  "fst (codepoints ''B'', codepoints ''B2'') \<noteq> [] \<and>
   pieces (codepoints ''B'') (codepoints ''ABCB'') = [codepoints ''A'', codepoints ''C'', []] \<and>
   apply_step (codepoints ''B'', codepoints ''B2'') (codepoints ''ABCB'') =
     join (codepoints ''B2'') [codepoints ''A'', codepoints ''C'', []] \<and>
   \<not> occurs (codepoints ''B'') (codepoints ''A'') \<and>
   \<not> occurs (codepoints ''B'') (codepoints ''C'') \<and>
   \<not> occurs (codepoints ''B'') []"
proof -
  have a: "fst (codepoints ''B'', codepoints ''B2'') \<noteq> []"
    by (simp add: codepoints_def)
  have p: "pieces (codepoints ''B'') (codepoints ''ABCB'') = [codepoints ''A'', codepoints ''C'', []]"
    by (simp add: codepoints_def)
  from a p step_is_split_then_join [OF a, of "codepoints ''ABCB''"]
  show ?thesis by simp
qed

text \<open>
  C9 as stated fails: the replacement \<open>b\<close> does not hold the anchor \<open>ab\<close>, and replacing
  \<open>ab\<close> by \<open>b\<close> in \<open>aab\<close> returns \<open>ab\<close>, the anchor itself.
\<close>

theorem anchor_reappears_after_step:
  "\<not> occurs (codepoints ''ab'') (codepoints ''b'') \<and>
   apply_step (codepoints ''ab'', codepoints ''b'') (codepoints ''aab'') = codepoints ''ab'' \<and>
   occurs (codepoints ''ab'') (apply_step (codepoints ''ab'', codepoints ''b'') (codepoints ''aab''))"
  by (simp add: apply_step_def replace_def codepoints_def)

section \<open>Properties of the file transaction\<close>

text \<open>
  C5, as the code has it. The claim says that a transaction with no step writes back the
  stored text of every readable file. Text mode rewrites line breaks, so this holds for
  the files whose line breaks are all the line separator of the platform, when the
  transaction completes.
\<close>

theorem no_op_round_trip_with_native_newlines:
  assumes "target w = File readable writable stored"
    and "native_newlines p stored"
    and "fst (execute p [] w) = Inr ()"
  shows "target (snd (execute p [] w)) = File readable writable stored"
  using transaction_completes[of w readable writable stored p "\<lambda>content. run content []"] assms
  by (simp add: execute_def newlines_round_trip)

theorem no_op_round_trip_with_native_newlines_witness:
  "native_newlines Posix [97, LF, 98] \<and>
   fst (execute Posix [] \<lparr>target = File True True [97, LF, 98], capacity = None, stdout = []\<rparr>) = Inr () \<and>
   target (snd (execute Posix [] \<lparr>target = File True True [97, LF, 98], capacity = None, stdout = []\<rparr>)) =
     File True True [97, LF, 98] \<and>
   native_newlines Windows [97, CR, LF, 98] \<and>
   fst (execute Windows [] \<lparr>target = File True True [97, CR, LF, 98], capacity = None, stdout = []\<rparr>) = Inr () \<and>
   target (snd (execute Windows [] \<lparr>target = File True True [97, CR, LF, 98], capacity = None, stdout = []\<rparr>)) =
     File True True [97, CR, LF, 98]"
proof -
  let ?w = "\<lparr>target = File True True [97, LF, 98], capacity = None, stdout = []\<rparr>"
  let ?v = "\<lparr>target = File True True [97, CR, LF, 98], capacity = None, stdout = []\<rparr>"
  have n: "native_newlines Posix [97, LF, 98]"
    by (simp add: CR_def LF_def)
  have m: "native_newlines Windows [97, CR, LF, 98]"
    by (simp add: CR_def LF_def)
  have r: "fst (execute Posix [] ?w) = Inr ()"
    by (simp add: execute_def transaction_on_file persist_def)
  have q: "fst (execute Windows [] ?v) = Inr ()"
    by (simp add: execute_def transaction_on_file persist_def)
  have tw: "target ?w = File True True [97, LF, 98]" by simp
  have tv: "target ?v = File True True [97, CR, LF, 98]" by simp
  from n m r q no_op_round_trip_with_native_newlines [OF tw n r]
    no_op_round_trip_with_native_newlines [OF tv m q]
  show ?thesis by simp
qed

text \<open>
  C5 as stated fails on a file with a line break that is not the platform's own: with no
  step, CR LF is written back as LF on a POSIX platform, and LF as CR LF on Windows.
\<close>

theorem round_trip_rewrites_line_breaks:
  "fst (execute Posix [] \<lparr>target = File True True [97, CR, LF, 98], capacity = None, stdout = []\<rparr>) = Inr () \<and>
   target (snd (execute Posix [] \<lparr>target = File True True [97, CR, LF, 98], capacity = None, stdout = []\<rparr>)) =
     File True True [97, LF, 98] \<and>
   File True True [97, LF, 98] \<noteq> File True True [97, CR, LF, 98] \<and>
   fst (execute Windows [] \<lparr>target = File True True [97, LF, 98], capacity = None, stdout = []\<rparr>) = Inr () \<and>
   target (snd (execute Windows [] \<lparr>target = File True True [97, LF, 98], capacity = None, stdout = []\<rparr>)) =
     File True True [97, CR, LF, 98]"
  by (simp add: execute_def transaction_on_file persist_def write_newlines_def CR_def LF_def)

text \<open>
  C6: where the file is missing or not readable, the transaction ends with a read
  failure and the world, the file in it, is as before; the result is the same for every
  list of steps and every transformation, none of which is applied.
\<close>

theorem read_failure_aborts_before_any_step:
  assumes "target w = Missing \<or> target w = File False writable stored"
  shows "execute p steps w = (Inl ReadFailure, w) \<and> script p w = (Inl ReadFailure, w) \<and>
         transaction p f w = (Inl ReadFailure, w)"
  using assms by (simp add: execute_def script_def transaction_unreadable)

theorem read_failure_aborts_before_any_step_witness:
  "execute Posix [(codepoints ''B'', codepoints ''B2'')]
       \<lparr>target = Missing, capacity = None, stdout = []\<rparr> =
     (Inl ReadFailure, \<lparr>target = Missing, capacity = None, stdout = []\<rparr>) \<and>
   script Posix \<lparr>target = File False True (codepoints ''ABC''), capacity = None, stdout = []\<rparr> =
     (Inl ReadFailure, \<lparr>target = File False True (codepoints ''ABC''), capacity = None, stdout = []\<rparr>)"
proof -
  let ?w = "\<lparr>target = Missing, capacity = None, stdout = []\<rparr>"
  let ?v = "\<lparr>target = File False True (codepoints ''ABC''), capacity = None, stdout = []\<rparr>"
  have a: "target ?w = Missing \<or> target ?w = File False True []" by simp
  have b: "target ?v = Missing \<or> target ?v = File False True (codepoints ''ABC'')" by simp
  from read_failure_aborts_before_any_step [OF a, of Posix "[(codepoints ''B'', codepoints ''B2'')]" id]
    read_failure_aborts_before_any_step [OF b, of Posix "[]" id]
  show ?thesis by simp
qed









end
